theory Spec2Isabelle
  imports Complex_Main "HOL-Library.AList" "HOL-Library.Sublist"
begin

section \<open>JavaScript values\<close>

text \<open>
  The handlers exchange JSON-like JavaScript values. Numbers are modelled as exact
  rationals (finite values only), strings as \<^typ>\<open>string\<close>, objects as association
  lists in property order. \<open>JUndefined\<close> is the value of a missing property.
\<close>

datatype jsval =
    JUndefined
  | JNull
  | JBool bool
  | JNum rat
  | JStr string
  | JArr "jsval list"
  | JObj "(string \<times> jsval) list"

text \<open>A thrown \<^verbatim>\<open>Error\<close>, identified by its message.\<close>

datatype js_error = Error string

text \<open>JavaScript truthiness, as used by \<^verbatim>\<open>if (x)\<close>, \<^verbatim>\<open>!x\<close>, \<^verbatim>\<open>x || y\<close>.\<close>

fun truthy :: "jsval \<Rightarrow> bool" where
  "truthy JUndefined = False"
| "truthy JNull = False"
| "truthy (JBool b) = b"
| "truthy (JNum x) = (x \<noteq> 0)"
| "truthy (JStr s) = (s \<noteq> [])"
| "truthy (JArr xs) = True"
| "truthy (JObj kvs) = True"

text \<open>Property read \<^verbatim>\<open>obj[k]\<close> on an object's own properties.\<close>

definition getProp :: "(string \<times> jsval) list \<Rightarrow> string \<Rightarrow> jsval" where
  "getProp obj k = (case map_of obj k of Some v \<Rightarrow> v | None \<Rightarrow> JUndefined)"

section \<open>Device scheduler metrics (kuhul/scheduler.js)\<close>

text \<open>
  The scheduler keeps four counters in \<^verbatim>\<open>this.metrics\<close>. The three job counters
  start at 0 and are only ever incremented, so they are natural numbers. Latencies are
  differences of \<^verbatim>\<open>Date.now()\<close> readings; the average is a JavaScript number. The
  model computes in exact rational arithmetic, which is what the claim about the
  online mean speaks of.
\<close>

record metrics =
  total_jobs :: nat
  successful_jobs :: nat
  failed_jobs :: nat
  avg_latency_ms :: rat

text \<open>The constructor's initial metrics.\<close>

definition initial_metrics :: metrics where
  "initial_metrics =
     \<lparr>total_jobs = 0, successful_jobs = 0, failed_jobs = 0, avg_latency_ms = 0\<rparr>"

text \<open>
  \<^verbatim>\<open>updateAvgLatency(latency)\<close>: \<^verbatim>\<open>n = this.metrics.successful_jobs\<close>, then
  \<^verbatim>\<open>avg = ((avg * (n - 1)) + latency) / n\<close>. Here \<open>n - 1\<close> is JavaScript's
  subtraction on numbers, so it is computed in the rationals (at \<open>n = 0\<close> it is \<open>-1\<close>,
  not the truncated \<open>0\<close> of the naturals).
\<close>

definition updateAvgLatency :: "rat \<Rightarrow> metrics \<Rightarrow> metrics" where
  "updateAvgLatency latency m =
     (let n = (of_nat (successful_jobs m) :: rat)
      in m\<lparr>avg_latency_ms := ((avg_latency_ms m * (n - 1)) + latency) / n\<rparr>)"

text \<open>
  The metrics update of \<^verbatim>\<open>scheduleRombosJob\<close>. The outcome of \<^verbatim>\<open>executeJob\<close> (a
  network call) is the parameter: on success the \<^verbatim>\<open>try\<close> block increments
  \<^verbatim>\<open>total_jobs\<close> and \<^verbatim>\<open>successful_jobs\<close> and then calls \<^verbatim>\<open>updateAvgLatency\<close>;
  the \<^verbatim>\<open>catch\<close> block increments \<^verbatim>\<open>total_jobs\<close> and \<^verbatim>\<open>failed_jobs\<close>.
\<close>

datatype job_outcome = JobSucceeded rat | JobFailed

fun record_job :: "job_outcome \<Rightarrow> metrics \<Rightarrow> metrics" where
  "record_job (JobSucceeded latency) m =
     updateAvgLatency latency
       (m\<lparr>total_jobs := total_jobs m + 1, successful_jobs := successful_jobs m + 1\<rparr>)"
| "record_job JobFailed m =
     m\<lparr>total_jobs := total_jobs m + 1, failed_jobs := failed_jobs m + 1\<rparr>"

lemma record_job_success_count:
  "successful_jobs (record_job (JobSucceeded latency) m) = successful_jobs m + 1"
  by (simp add: updateAvgLatency_def Let_def)

text \<open>
  Claim C9. After a successful job completion the stored average is
  \<open>old_avg + (sample - old_avg) / n_success\<close>, where \<open>n_success\<close> counts the
  successful jobs including the one just completed: the implemented update
  \<open>((old_avg * (n - 1)) + sample) / n\<close> is the online mean, in exact arithmetic.
\<close>

theorem avg_latency_online_mean:
  "avg_latency_ms (record_job (JobSucceeded sample) m) =
     avg_latency_ms m
       + (sample - avg_latency_ms m)
           / of_nat (successful_jobs (record_job (JobSucceeded sample) m))"
proof -
  define n where "n = (of_nat (successful_jobs m + 1) :: rat)"
  have pos: "n \<noteq> 0"
    unfolding n_def by (metis of_nat_eq_0_iff add_is_0 one_neq_zero)
  have "((avg_latency_ms m * (n - 1)) + sample) / n
          = avg_latency_ms m + (sample - avg_latency_ms m) / n"
    using pos by (simp add: field_simps)
  then show ?thesis
    by (simp add: updateAvgLatency_def Let_def n_def)
qed

text \<open>
  Two successful jobs from the initial metrics, with latencies 10 and 30 ms: the second
  update moves the average from 10 to \<open>10 + (30 - 10) / 2 = 20\<close>.
\<close>

theorem avg_latency_online_mean_witness:
  "avg_latency_ms (record_job (JobSucceeded 30) (record_job (JobSucceeded 10) initial_metrics))
     = 10 + (30 - 10) / 2
   \<and> successful_jobs (record_job (JobSucceeded 30) (record_job (JobSucceeded 10) initial_metrics))
     = 2"
  using avg_latency_online_mean [of 30 "record_job (JobSucceeded 10) initial_metrics"]
  by (simp add: updateAvgLatency_def initial_metrics_def Let_def)

section \<open>The @while loop of the XJSON runtime (xjson/runtime.js)\<close>














section \<open>The glyph interpreter (kuhul/interpreter.js)\<close>

text \<open>
  The interpreter state: the operand stack (a JavaScript array, top at the end), the
  variables, the registered function bodies (\<open>fn_bodies\<close> for \<^verbatim>\<open>this.functions\<close>;
  always the empty array in this source) and the current-function slot. \<open>console\<close> collects what \<^verbatim>\<open>console.log\<close> prints and
  \<open>random_draws\<close> counts the calls of \<^verbatim>\<open>Math.random\<close>.
\<close>

record kuhul_state =
  stack :: "jsval list"
  variables :: "(string \<times> jsval) list"
  fn_bodies :: "(string \<times> jsval list) list"
  currentFunction :: jsval
  console :: "jsval list"
  random_draws :: nat

text \<open>The constructor.\<close>

definition kuhul_init :: kuhul_state where
  "kuhul_init =
     \<lparr>stack = [], variables = [], fn_bodies = [], currentFunction = JNull,
      console = [], random_draws = 0\<rparr>"

text \<open>
  The operators and built-ins of the host language that the interpreter applies to
  stack values are parameters: \<^verbatim>\<open>isNaN\<close> and \<^verbatim>\<open>parseFloat\<close> on a string, the
  arithmetic and comparison operators with their coercions, strict equality, and the
  sequence of values that \<^verbatim>\<open>Math.random\<close> returns.
\<close>

record js_host =
  host_isNaN :: "string \<Rightarrow> bool"
  host_parseFloat :: "string \<Rightarrow> jsval"
  host_add :: "jsval \<Rightarrow> jsval \<Rightarrow> jsval"
  host_sub :: "jsval \<Rightarrow> jsval \<Rightarrow> jsval"
  host_mul :: "jsval \<Rightarrow> jsval \<Rightarrow> jsval"
  host_div :: "jsval \<Rightarrow> jsval \<Rightarrow> jsval"
  host_gt :: "jsval \<Rightarrow> jsval \<Rightarrow> jsval"
  host_lt :: "jsval \<Rightarrow> jsval \<Rightarrow> jsval"
  host_gte :: "jsval \<Rightarrow> jsval \<Rightarrow> jsval"
  host_lte :: "jsval \<Rightarrow> jsval \<Rightarrow> jsval"
  host_strict_eq :: "jsval \<Rightarrow> jsval \<Rightarrow> bool"
  host_random :: "nat \<Rightarrow> jsval"

text \<open>
  \<^verbatim>\<open>Array.prototype.pop\<close>: removes and returns the last element; on an empty array it
  returns \<^verbatim>\<open>undefined\<close> and leaves the array empty. It never throws.
\<close>

definition array_pop :: "jsval list \<Rightarrow> jsval \<times> jsval list" where
  "array_pop xs = (if xs = [] then (JUndefined, []) else (last xs, butlast xs))"

text \<open>An argument that the token does not carry is \<^verbatim>\<open>undefined\<close>; in a template
  string and as a property key it reads \<^verbatim>\<open>undefined\<close>.\<close>

definition name_text :: "string option \<Rightarrow> string" where
  "name_text name = (case name of None \<Rightarrow> ''undefined'' | Some n \<Rightarrow> n)"

definition name_value :: "string option \<Rightarrow> jsval" where
  "name_value name = (case name of None \<Rightarrow> JUndefined | Some n \<Rightarrow> JStr n)"

text \<open>\<^verbatim>\<open>opPop(name)\<close>: start a function definition.\<close>

definition opPop :: "string option \<Rightarrow> kuhul_state \<Rightarrow> js_error + kuhul_state" where
  "opPop name st =
     Inr (st\<lparr>currentFunction := name_value name,
             fn_bodies := AList.update (name_text name) [] (fn_bodies st)\<rparr>)"

text \<open>
  \<^verbatim>\<open>opWo(value)\<close>: parse the literal and push it. A missing argument makes
  \<^verbatim>\<open>value.startsWith\<close> throw a \<^verbatim>\<open>TypeError\<close>.
\<close>

definition parse_literal :: "js_host \<Rightarrow> string \<Rightarrow> jsval" where
  "parse_literal h v =
     (if v \<noteq> [] \<and> hd v = CHR 0x22 \<and> last v = CHR 0x22 then JStr (butlast (tl v))
      else if v = ''true'' then JBool True
      else if v = ''false'' then JBool False
      else if \<not> host_isNaN h v then host_parseFloat h v
      else JStr v)"

definition opWo :: "js_host \<Rightarrow> string option \<Rightarrow> kuhul_state \<Rightarrow> js_error + kuhul_state" where
  "opWo h arg st =
     (case arg of
        None \<Rightarrow> Inl (Error ''Cannot read properties of undefined (reading 'startsWith')'')
      | Some v \<Rightarrow> Inr (st\<lparr>stack := stack st @ [parse_literal h v]\<rparr>))"

text \<open>\<^verbatim>\<open>opChen(name)\<close>: the store opcode, with its explicit empty-stack check.\<close>

definition opChen :: "string option \<Rightarrow> kuhul_state \<Rightarrow> js_error + kuhul_state" where
  "opChen name st =
     (if length (stack st) = 0
      then Inl (Error (''Stack underflow at Ch'en '' @ name_text name))
      else let (v, rest) = array_pop (stack st)
           in Inr (st\<lparr>stack := rest,
                       variables := AList.update (name_text name) v (variables st)\<rparr>))"

text \<open>\<^verbatim>\<open>opYax(name)\<close>: the load opcode (\<^verbatim>\<open>name in this.variables\<close>, read on the
  variables stored by the program).\<close>

definition opYax :: "string option \<Rightarrow> kuhul_state \<Rightarrow> js_error + kuhul_state" where
  "opYax name st =
     (case map_of (variables st) (name_text name) of
        None \<Rightarrow> Inl (Error (''Variable '' @ name_text name @ '' not defined''))
      | Some v \<Rightarrow> Inr (st\<lparr>stack := stack st @ [v]\<rparr>))"

text \<open>\<^verbatim>\<open>binaryOp(fn)\<close> and \<^verbatim>\<open>unaryOp(fn)\<close>, each with its stack-length check.\<close>

definition binaryOp ::
  "(jsval \<Rightarrow> jsval \<Rightarrow> jsval) \<Rightarrow> kuhul_state \<Rightarrow> js_error + kuhul_state" where
  "binaryOp fn st =
     (if length (stack st) < 2 then Inl (Error ''Stack underflow in binary operation'')
      else let (b, rest1) = array_pop (stack st);
               (a, rest2) = array_pop rest1
           in Inr (st\<lparr>stack := rest2 @ [fn a b]\<rparr>))"

definition unaryOp :: "(jsval \<Rightarrow> jsval) \<Rightarrow> kuhul_state \<Rightarrow> js_error + kuhul_state" where
  "unaryOp fn st =
     (if length (stack st) < 1 then Inl (Error ''Stack underflow in unary operation'')
      else let (a, rest) = array_pop (stack st)
           in Inr (st\<lparr>stack := rest @ [fn a]\<rparr>))"

text \<open>
  \<^verbatim>\<open>opSek(operation)\<close>, case by case in the order of the \<^verbatim>\<open>switch\<close>. The \<^verbatim>\<open>print\<close>
  case is \<^verbatim>\<open>console.log(this.stack.pop())\<close>: it calls \<^verbatim>\<open>pop\<close> directly, with no
  length check before it.
\<close>

definition opSek :: "js_host \<Rightarrow> string option \<Rightarrow> kuhul_state \<Rightarrow> js_error + kuhul_state" where
  "opSek h operation st =
     (if operation = Some ''add'' then binaryOp (host_add h) st
      else if operation = Some ''sub'' then binaryOp (host_sub h) st
      else if operation = Some ''mul'' then binaryOp (host_mul h) st
      else if operation = Some ''div'' then binaryOp (host_div h) st
      else if operation = Some ''gt'' then binaryOp (host_gt h) st
      else if operation = Some ''lt'' then binaryOp (host_lt h) st
      else if operation = Some ''gte'' then binaryOp (host_gte h) st
      else if operation = Some ''lte'' then binaryOp (host_lte h) st
      else if operation = Some ''eq'' then binaryOp (\<lambda>a b. JBool (host_strict_eq h a b)) st
      else if operation = Some ''neq'' then binaryOp (\<lambda>a b. JBool (\<not> host_strict_eq h a b)) st
      else if operation = Some ''and'' then binaryOp (\<lambda>a b. if truthy a then b else a) st
      else if operation = Some ''or'' then binaryOp (\<lambda>a b. if truthy a then a else b) st
      else if operation = Some ''not'' then unaryOp (\<lambda>a. JBool (\<not> truthy a)) st
      else if operation = Some ''print'' then
        (let (v, rest) = array_pop (stack st)
         in Inr (st\<lparr>stack := rest, console := console st @ [v]\<rparr>))
      else if operation = Some ''rand'' then
        Inr (st\<lparr>stack := stack st @ [host_random h (random_draws st)],
                random_draws := random_draws st + 1\<rparr>)
      else Inl (Error (''Unknown operation: '' @ name_text operation)))"

text \<open>\<^verbatim>\<open>opXul()\<close>: end of a function definition.\<close>

definition opXul :: "kuhul_state \<Rightarrow> js_error + kuhul_state" where
  "opXul st = Inr (st\<lparr>currentFunction := JNull\<rparr>)"

text \<open>
  \<^verbatim>\<open>executeToken(token)\<close>: a token is the list of the words between two brackets, the
  opcode first; \<^verbatim>\<open>args[0]\<close> is the second word when there is one.
\<close>

definition executeToken :: "js_host \<Rightarrow> string list \<Rightarrow> kuhul_state \<Rightarrow> js_error + kuhul_state" where
  "executeToken h token st =
     (let op = (case token of [] \<Rightarrow> None | w # _ \<Rightarrow> Some w);
          arg0 = (case token of _ # a # _ \<Rightarrow> Some a | _ \<Rightarrow> None)
      in if op = Some ''Pop'' then opPop arg0 st
         else if op = Some ''Wo'' then opWo h arg0 st
         else if op = Some ''Ch'en'' \<or> op = Some ''Chen'' then opChen arg0 st
         else if op = Some ''Yax'' then opYax arg0 st
         else if op = Some ''Sek'' then opSek h arg0 st
         else if op = Some ''Xul'' then opXul st
         else Inl (Error (''Unknown operation: '' @ name_text op)))"

text \<open>
  \<^verbatim>\<open>execute\<close> on a parsed program (the tokens that \<^verbatim>\<open>parse\<close> extracts): the tokens run
  in order, the first thrown error ends the run, and the result is the top of the
  stack or \<^verbatim>\<open>null\<close>. Every check in the operations precedes their writes, so the state
  at a throw is the state before the failing token.
\<close>

fun run_tokens ::
  "js_host \<Rightarrow> string list list \<Rightarrow> kuhul_state \<Rightarrow> js_error option \<times> kuhul_state" where
  "run_tokens h [] st = (None, st)"
| "run_tokens h (t # ts) st =
     (case executeToken h t st of
        Inl e \<Rightarrow> (Some e, st)
      | Inr st' \<Rightarrow> run_tokens h ts st')"

definition execute ::
  "js_host \<Rightarrow> string list list \<Rightarrow> kuhul_state \<Rightarrow> (js_error + jsval) \<times> kuhul_state" where
  "execute h tokens st =
     (case run_tokens h tokens st of
        (Some e, st') \<Rightarrow> (Inl e, st')
      | (None, st') \<Rightarrow>
          (Inr (if length (stack st') > 0 then last (stack st') else JNull), st'))"

text \<open>The operations that check the stack before popping do fail on too few operands.\<close>

lemma binaryOp_underflow:
  "length (stack st) < 2 \<Longrightarrow> binaryOp fn st = Inl (Error ''Stack underflow in binary operation'')"
  by (simp add: binaryOp_def)

lemma unaryOp_underflow:
  "stack st = [] \<Longrightarrow> unaryOp fn st = Inl (Error ''Stack underflow in unary operation'')"
  by (simp add: unaryOp_def)

lemma opChen_underflow:
  "stack st = [] \<Longrightarrow> opChen name st = Inl (Error (''Stack underflow at Ch'en '' @ name_text name))"
  by (simp add: opChen_def)

text \<open>
  Claim C8 (the code departs from it at \<^verbatim>\<open>print\<close>). The program \<^verbatim>\<open>[Sek print]\<close> on a
  fresh interpreter pops from the empty stack: no error is thrown, \<^verbatim>\<open>undefined\<close> is
  printed, and \<^verbatim>\<open>execute\<close> returns \<^verbatim>\<open>null\<close>.
\<close>

theorem print_on_empty_stack_does_not_fail:
  "execute h [[''Sek'', ''print'']] kuhul_init
     = (Inr JNull, kuhul_init\<lparr>console := [JUndefined]\<rparr>)"
  by (simp add: execute_def executeToken_def opSek_def array_pop_def kuhul_init_def)


section \<open>The multi-judge tribunal (Tribunal class)\<close>

































subsection \<open>Collecting the votes\<close>



















section \<open>The HTTP request listener of the XJSON server\<close>




text \<open>
  Property read \<^verbatim>\<open>v.k\<close> on an arbitrary value: a \<^verbatim>\<open>TypeError\<close> on \<^verbatim>\<open>undefined\<close> and
  \<^verbatim>\<open>null\<close>, the own property of an object, and \<^verbatim>\<open>undefined\<close> for the keys read here
  on any other value.
\<close>

definition member :: "jsval \<Rightarrow> string \<Rightarrow> js_error + jsval" where
  "member v k =
     (case v of
        JUndefined \<Rightarrow>
          Inl (Error (''Cannot read properties of undefined (reading '' @ [CHR 0x27] @ k
                      @ [CHR 0x27] @ '')''))
      | JNull \<Rightarrow>
          Inl (Error (''Cannot read properties of null (reading '' @ [CHR 0x27] @ k
                      @ [CHR 0x27] @ '')''))
      | JObj kvs \<Rightarrow> Inr (getProp kvs k)
      | _ \<Rightarrow> Inr JUndefined)"

text \<open>\<^verbatim>\<open>a || b\<close>.\<close>

definition js_or :: "jsval \<Rightarrow> jsval \<Rightarrow> jsval" where
  "js_or a b = (if truthy a then a else b)"














section \<open>The tape registry of the GHOST handlers\<close>

text \<open>
  What \<^verbatim>\<open>loadTapes\<close> sees of the file system: the tape directory is missing, cannot be
  listed (\<^verbatim>\<open>readdir\<close> throws), or has entries. For each entry: its name, whether it is a
  directory, and its \<^verbatim>\<open>tape.json\<close> (absent, unreadable, or parsed).
\<close>

datatype tape_json = NoTapeJson | UnreadableTapeJson string | TapeJson jsval

record dir_entry =
  entry_name :: string
  isDirectory :: bool
  entry_tape_json :: tape_json

datatype tapes_dir = MissingDir | UnlistableDir string | Listing "dir_entry list"

text \<open>
  The registry is a \<^verbatim>\<open>Map\<close>: entries in insertion order, keys compared with
  SameValueZero. Primitive keys are compared by value; an object or array key is equal
  only to the very same object, which no later lookup or insertion can present.
\<close>

type_synonym registry = "(jsval \<times> (string \<times> jsval) list) list"

fun same_key :: "jsval \<Rightarrow> jsval \<Rightarrow> bool" where
  "same_key (JArr xs) k = False"
| "same_key (JObj kvs) k = False"
| "same_key k (JArr xs) = False"
| "same_key k (JObj kvs) = False"
| "same_key k k' = (k = k')"

fun map_set :: "jsval \<Rightarrow> (string \<times> jsval) list \<Rightarrow> registry \<Rightarrow> registry" where
  "map_set k v [] = [(k, v)]"
| "map_set k v (e # es) = (if same_key (fst e) k then (fst e, v) # es else e # map_set k v es)"


text \<open>Decimal index keys, for spreading a string or an array into an object.\<close>

function decimal :: "nat \<Rightarrow> string" where
  "decimal n = (if n < 10 then [char_of (48 + n)]
                else decimal (n div 10) @ [char_of (48 + n mod 10)])"
  by pat_completeness auto
termination
  by (relation "measure id") auto

declare decimal.simps [simp del]

text \<open>\<^verbatim>\<open>{...v}\<close>: the own enumerable properties of a value.\<close>

definition spread :: "jsval \<Rightarrow> (string \<times> jsval) list" where
  "spread v =
     (case v of
        JObj kvs \<Rightarrow> kvs
      | JArr xs \<Rightarrow> map (\<lambda>i. (decimal i, xs ! i)) [0 ..< length xs]
      | JStr s \<Rightarrow> map (\<lambda>i. (decimal i, JStr [s ! i])) [0 ..< length s]
      | _ \<Rightarrow> [])"

text \<open>
  One turn of the loop over the directory entries. A non-directory and a directory
  without \<^verbatim>\<open>tape.json\<close> are skipped. An unreadable file, and \<^verbatim>\<open>null\<close> as content
  (where \<^verbatim>\<open>tapeData.id\<close> throws), end in the inner \<^verbatim>\<open>catch\<close>. Otherwise the tape is
  stored under \<^verbatim>\<open>tapeData.id || entry.name\<close>.
\<close>

definition add_entry :: "string \<Rightarrow> registry \<Rightarrow> dir_entry \<Rightarrow> registry" where
  "add_entry tapes_path reg e =
     (if \<not> isDirectory e then reg
      else case entry_tape_json e of
             NoTapeJson \<Rightarrow> reg
           | UnreadableTapeJson msg \<Rightarrow> reg
           | TapeJson tapeData \<Rightarrow>
               (case member tapeData ''id'' of
                  Inl err \<Rightarrow> reg
                | Inr tid \<Rightarrow>
                    map_set (js_or tid (JStr (entry_name e)))
                      (AList.update ''path'' (JStr (tapes_path @ ''/'' @ entry_name e))
                         (spread tapeData))
                      reg))"

text \<open>The scan that fills a fresh \<^verbatim>\<open>Map\<close>.\<close>

definition scan_tapes :: "string \<Rightarrow> tapes_dir \<Rightarrow> registry" where
  "scan_tapes tapes_path dir =
     (case dir of
        MissingDir \<Rightarrow> []
      | UnlistableDir msg \<Rightarrow> []
      | Listing entries \<Rightarrow> foldl (add_entry tapes_path) [] entries)"


text \<open>
  What the handlers take from the host besides the file system: the path of the tape
  directory, the clock, the generated session id and the text of a value in a template
  string.
\<close>

record ghost_env =
  tapes_path :: string
  now :: nat
  fresh_session_id :: string
  template_text :: "jsval \<Rightarrow> string"

text \<open>
  Destructuring \<^verbatim>\<open>const {a, b} = input\<close> throws on \<^verbatim>\<open>undefined\<close> and \<^verbatim>\<open>null\<close>; a
  default \<^verbatim>\<open>{a = d}\<close> applies when the property is \<^verbatim>\<open>undefined\<close>.
\<close>

definition destructure :: "jsval \<Rightarrow> js_error + (string \<Rightarrow> jsval)" where
  "destructure input =
     (if input = JUndefined \<or> input = JNull
      then Inl (Error ''Cannot destructure input'')
      else Inr (\<lambda>k. case input of JObj kvs \<Rightarrow> getProp kvs k | _ \<Rightarrow> JUndefined))"

definition with_default :: "jsval \<Rightarrow> jsval \<Rightarrow> jsval" where
  "with_default v d = (if v = JUndefined then d else v)"




















text \<open>
  A tape directory with one tape, \<^verbatim>\<open>alpha\<close>, and the same directory after a second
  tape, \<^verbatim>\<open>beta\<close>, was added.
\<close>

definition tape_dir_entry :: "string \<Rightarrow> dir_entry" where
  "tape_dir_entry n =
     \<lparr>entry_name = n, isDirectory = True,
      entry_tape_json = TapeJson (JObj [(''id'', JStr n), (''version'', JStr ''1.0.0'')])\<rparr>"


definition dir_after :: tapes_dir where
  "dir_after = Listing [tape_dir_entry ''alpha'', tape_dir_entry ''beta'']"



lemma scan_after:
  "scan_tapes ''/srv/tapes'' dir_after
     = [(JStr ''alpha'', [(''id'', JStr ''alpha''), (''version'', JStr ''1.0.0''),
                          (''path'', JStr ''/srv/tapes/alpha'')]),
        (JStr ''beta'', [(''id'', JStr ''beta''), (''version'', JStr ''1.0.0''),
                         (''path'', JStr ''/srv/tapes/beta'')])]"
  by (simp add: scan_tapes_def dir_after_def tape_dir_entry_def add_entry_def member_def
      getProp_def js_or_def spread_def)



section \<open>The sandboxed file-system handlers\<close>

subsection \<open>Path resolution\<close>

text \<open>
  \<^verbatim>\<open>path.resolve(BASE_DIR, inputPath)\<close> on POSIX. \<^verbatim>\<open>BASE_DIR\<close> is itself the result of
  \<^verbatim>\<open>path.resolve\<close>, an absolute normalised path; it is a parameter of the model, since
  it depends on where the server is installed. An absolute input replaces the base, a
  relative one is appended to it; then empty and \<^verbatim>\<open>.\<close> segments are dropped and \<^verbatim>\<open>..\<close>
  removes the segment before it (and is dropped at the root).
\<close>

fun split_segments :: "string \<Rightarrow> string \<Rightarrow> string list" where
  "split_segments cur [] = [cur]"
| "split_segments cur (c # cs) =
     (if c = CHR ''/'' then cur # split_segments [] cs else split_segments (cur @ [c]) cs)"

definition normalize_step :: "string list \<Rightarrow> string \<Rightarrow> string list" where
  "normalize_step acc seg =
     (if seg = [] \<or> seg = ''.'' then acc
      else if seg = ''..'' then butlast acc
      else acc @ [seg])"

definition join_absolute :: "string list \<Rightarrow> string" where
  "join_absolute segs = (if segs = [] then ''/'' else concat (map (\<lambda>s. ''/'' @ s) segs))"

definition resolve :: "string \<Rightarrow> string \<Rightarrow> string" where
  "resolve base inputPath =
     join_absolute
       (foldl normalize_step []
          (split_segments []
             (if inputPath \<noteq> [] \<and> hd inputPath = CHR ''/'' then inputPath
              else base @ ''/'' @ inputPath)))"

text \<open>\<^verbatim>\<open>path.join(dir, item)\<close> for an absolute \<^verbatim>\<open>dir\<close>.\<close>

definition path_join :: "string \<Rightarrow> string \<Rightarrow> string" where
  "path_join dir item =
     join_absolute (foldl normalize_step [] (split_segments [] (dir @ ''/'' @ item)))"

text \<open>
  \<^verbatim>\<open>safePath\<close>. A path that is not a string makes \<^verbatim>\<open>path.resolve\<close> throw a
  \<^verbatim>\<open>TypeError\<close>. The check is \<^verbatim>\<open>resolved.startsWith(BASE_DIR)\<close>, a comparison of
  strings.
\<close>

definition access_denied :: js_error where
  "access_denied = Error ''Access denied: Path outside allowed directory''"

definition safePath :: "string \<Rightarrow> jsval \<Rightarrow> js_error + string" where
  "safePath base inputPath =
     (case inputPath of
        JStr p \<Rightarrow>
          (let resolved = resolve base p
           in if \<not> prefix base resolved then Inl access_denied else Inr resolved)
      | _ \<Rightarrow> Inl (Error (''The '' @ [CHR 0x22] @ ''paths[1]'' @ [CHR 0x22]
                       @ '' argument must be of type string'')))"

text \<open>
  A path lies inside the sandbox root when it is the root itself or continues the root
  with a separator. (A root of \<^verbatim>\<open>/\<close> contains every absolute path.)
\<close>

definition inside_root :: "string \<Rightarrow> string \<Rightarrow> bool" where
  "inside_root base p = (p = base \<or> prefix (if base = ''/'' then base else base @ ''/'') p)"

subsection \<open>The handlers\<close>

text \<open>
  The file system is reached through \<^verbatim>\<open>fs-extra\<close>. Each call a handler makes is
  recorded, in order, as an \<open>fs_op\<close>; what the call answers is taken from an oracle that
  stands for the state of the disk.
\<close>

datatype fs_op =
    PathExists string
  | ReadFile string
  | Stat string
  | EnsureFile string
  | WriteFile string
  | Readdir string
  | Remove string
  | Copy string string
  | ReadJson string
  | WriteJson string

record file_stats =
  stat_size :: nat
  stat_mtime :: jsval
  stat_isDirectory :: bool

record fs_oracle =
  on_pathExists :: "string \<Rightarrow> bool"
  on_readFile :: "string \<Rightarrow> jsval \<Rightarrow> js_error + jsval"
  on_stat :: "string \<Rightarrow> js_error + file_stats"
  on_ensureFile :: "string \<Rightarrow> js_error option"
  on_writeFile :: "string \<Rightarrow> jsval \<Rightarrow> jsval \<Rightarrow> js_error option"
  on_readdir :: "string \<Rightarrow> js_error + string list"
  on_remove :: "string \<Rightarrow> js_error option"
  on_copy :: "string \<Rightarrow> string \<Rightarrow> jsval \<Rightarrow> js_error option"
  on_readJson :: "string \<Rightarrow> js_error + jsval"
  on_writeJson :: "string \<Rightarrow> jsval \<Rightarrow> jsval \<Rightarrow> js_error option"

text \<open>The object a \<^verbatim>\<open>catch\<close> block returns: the message and the caller's path.\<close>

definition caught :: "js_error \<Rightarrow> (string \<times> jsval) list \<Rightarrow> jsval" where
  "caught e rest = (case e of Error msg \<Rightarrow> JObj ((''error'', JStr msg) # rest))"

type_synonym fs_result = "(js_error + jsval) \<times> fs_op list"

definition fs_read :: "fs_oracle \<Rightarrow> string \<Rightarrow> jsval \<Rightarrow> fs_result" where
  "fs_read fs base input =
     (case destructure input of
        Inl e \<Rightarrow> (Inl e, [])
      | Inr arg \<Rightarrow>
          let filePath = arg ''path'';
              encoding = with_default (arg ''encoding'') (JStr ''utf8'')
          in case safePath base filePath of
               Inl e \<Rightarrow> (Inr (caught e [(''path'', filePath)]), [])
             | Inr safe \<Rightarrow>
                 if \<not> on_pathExists fs safe
                 then (Inr (JObj [(''error'', JStr ''File not found''), (''path'', filePath)]),
                       [PathExists safe])
                 else
                   (case on_readFile fs safe encoding of
                      Inl e \<Rightarrow> (Inr (caught e [(''path'', filePath)]),
                                [PathExists safe, ReadFile safe])
                    | Inr content \<Rightarrow>
                        (case on_stat fs safe of
                           Inl e \<Rightarrow> (Inr (caught e [(''path'', filePath)]),
                                     [PathExists safe, ReadFile safe, Stat safe])
                         | Inr stats \<Rightarrow>
                             (Inr (JObj [(''success'', JBool True), (''path'', filePath),
                                         (''content'', content),
                                         (''size'', JNum (of_nat (stat_size stats))),
                                         (''modified'', stat_mtime stats)]),
                              [PathExists safe, ReadFile safe, Stat safe]))))"

definition fs_write :: "fs_oracle \<Rightarrow> string \<Rightarrow> jsval \<Rightarrow> fs_result" where
  "fs_write fs base input =
     (case destructure input of
        Inl e \<Rightarrow> (Inl e, [])
      | Inr arg \<Rightarrow>
          let filePath = arg ''path'';
              encoding = with_default (arg ''encoding'') (JStr ''utf8'')
          in case safePath base filePath of
               Inl e \<Rightarrow> (Inr (caught e [(''path'', filePath)]), [])
             | Inr safe \<Rightarrow>
                 (case on_ensureFile fs safe of
                    Some e \<Rightarrow> (Inr (caught e [(''path'', filePath)]), [EnsureFile safe])
                  | None \<Rightarrow>
                      (case on_writeFile fs safe (arg ''content'') encoding of
                         Some e \<Rightarrow> (Inr (caught e [(''path'', filePath)]),
                                    [EnsureFile safe, WriteFile safe])
                       | None \<Rightarrow>
                           (case on_stat fs safe of
                              Inl e \<Rightarrow> (Inr (caught e [(''path'', filePath)]),
                                        [EnsureFile safe, WriteFile safe, Stat safe])
                            | Inr stats \<Rightarrow>
                                (Inr (JObj [(''success'', JBool True), (''path'', filePath),
                                            (''size'', JNum (of_nat (stat_size stats)))]),
                                 [EnsureFile safe, WriteFile safe, Stat safe])))))"

text \<open>
  \<^verbatim>\<open>fs_list\<close>: \<^verbatim>\<open>items.map\<close> starts a \<^verbatim>\<open>stat\<close> for every item before any of them is
  awaited, so every item is stat'ed; the first failure (if any) is the one caught.
\<close>

fun first_failure :: "(js_error + 'a) list \<Rightarrow> js_error + 'a list" where
  "first_failure [] = Inr []"
| "first_failure (Inl e # rs) = Inl e"
| "first_failure (Inr x # rs) =
     (case first_failure rs of Inl e \<Rightarrow> Inl e | Inr xs \<Rightarrow> Inr (x # xs))"

definition fs_list :: "fs_oracle \<Rightarrow> string \<Rightarrow> jsval \<Rightarrow> fs_result" where
  "fs_list fs base input =
     (case destructure input of
        Inl e \<Rightarrow> (Inl e, [])
      | Inr arg \<Rightarrow>
          let dirPath = with_default (arg ''path'') (JStr ''.'')
          in case safePath base dirPath of
               Inl e \<Rightarrow> (Inr (caught e [(''path'', dirPath)]), [])
             | Inr safe \<Rightarrow>
                 if \<not> on_pathExists fs safe
                 then (Inr (JObj [(''error'', JStr ''Directory not found''), (''path'', dirPath)]),
                       [PathExists safe])
                 else
                   (case on_readdir fs safe of
                      Inl e \<Rightarrow> (Inr (caught e [(''path'', dirPath)]),
                                [PathExists safe, Readdir safe])
                    | Inr items \<Rightarrow>
                        let ops = [PathExists safe, Readdir safe]
                                  @ map (\<lambda>item. Stat (path_join safe item)) items
                        in case first_failure
                                  (map (\<lambda>item.
                                          case on_stat fs (path_join safe item) of
                                            Inl e \<Rightarrow> Inl e
                                          | Inr stats \<Rightarrow>
                                              Inr (JObj [(''name'', JStr item),
                                                         (''type'', JStr (if stat_isDirectory stats
                                                                          then ''directory''
                                                                          else ''file'')),
                                                         (''size'', JNum (of_nat (stat_size stats))),
                                                         (''modified'', stat_mtime stats)]))
                                       items) of
                             Inl e \<Rightarrow> (Inr (caught e [(''path'', dirPath)]), ops)
                           | Inr details \<Rightarrow>
                               (Inr (JObj [(''success'', JBool True), (''path'', dirPath),
                                           (''items'', JArr details)]), ops)))"

definition fs_exists :: "fs_oracle \<Rightarrow> string \<Rightarrow> jsval \<Rightarrow> fs_result" where
  "fs_exists fs base input =
     (case destructure input of
        Inl e \<Rightarrow> (Inl e, [])
      | Inr arg \<Rightarrow>
          let checkPath = arg ''path''
          in case safePath base checkPath of
               Inl e \<Rightarrow> (Inr (caught e [(''path'', checkPath)]), [])
             | Inr safe \<Rightarrow>
                 if \<not> on_pathExists fs safe
                 then (Inr (JObj [(''exists'', JBool False), (''path'', checkPath),
                                  (''type'', JNull)]),
                       [PathExists safe])
                 else
                   (case on_stat fs safe of
                      Inl e \<Rightarrow> (Inr (caught e [(''path'', checkPath)]),
                                [PathExists safe, Stat safe])
                    | Inr stats \<Rightarrow>
                        (Inr (JObj [(''exists'', JBool True), (''path'', checkPath),
                                    (''type'', JStr (if stat_isDirectory stats then ''directory''
                                                     else ''file''))]),
                         [PathExists safe, Stat safe])))"

definition fs_delete :: "fs_oracle \<Rightarrow> string \<Rightarrow> jsval \<Rightarrow> fs_result" where
  "fs_delete fs base input =
     (case destructure input of
        Inl e \<Rightarrow> (Inl e, [])
      | Inr arg \<Rightarrow>
          let deletePath = arg ''path''
          in case safePath base deletePath of
               Inl e \<Rightarrow> (Inr (caught e [(''path'', deletePath)]), [])
             | Inr safe \<Rightarrow>
                 if \<not> on_pathExists fs safe
                 then (Inr (JObj [(''error'', JStr ''Path not found''), (''path'', deletePath)]),
                       [PathExists safe])
                 else
                   (case on_remove fs safe of
                      Some e \<Rightarrow> (Inr (caught e [(''path'', deletePath)]),
                                 [PathExists safe, Remove safe])
                    | None \<Rightarrow>
                        (Inr (JObj [(''success'', JBool True), (''path'', deletePath)]),
                         [PathExists safe, Remove safe])))"

text \<open>\<^verbatim>\<open>fs_copy\<close> resolves and checks both paths before it touches the disk.\<close>

definition fs_copy :: "fs_oracle \<Rightarrow> string \<Rightarrow> jsval \<Rightarrow> fs_result" where
  "fs_copy fs base input =
     (case destructure input of
        Inl e \<Rightarrow> (Inl e, [])
      | Inr arg \<Rightarrow>
          let src = arg ''from'';
              dst = arg ''to'';
              overwrite = with_default (arg ''overwrite'') (JBool False)
          in case safePath base src of
               Inl e \<Rightarrow> (Inr (caught e [(''from'', src), (''to'', dst)]), [])
             | Inr safeFrom \<Rightarrow>
                 (case safePath base dst of
                    Inl e \<Rightarrow> (Inr (caught e [(''from'', src), (''to'', dst)]), [])
                  | Inr safeTo \<Rightarrow>
                      if \<not> on_pathExists fs safeFrom
                      then (Inr (JObj [(''error'', JStr ''Source not found''), (''from'', src)]),
                            [PathExists safeFrom])
                      else
                        (case on_copy fs safeFrom safeTo overwrite of
                           Some e \<Rightarrow> (Inr (caught e [(''from'', src), (''to'', dst)]),
                                      [PathExists safeFrom, Copy safeFrom safeTo])
                         | None \<Rightarrow>
                             (Inr (JObj [(''success'', JBool True), (''from'', src),
                                         (''to'', dst)]),
                              [PathExists safeFrom, Copy safeFrom safeTo]))))"

definition fs_json_read :: "fs_oracle \<Rightarrow> string \<Rightarrow> jsval \<Rightarrow> fs_result" where
  "fs_json_read fs base input =
     (case destructure input of
        Inl e \<Rightarrow> (Inl e, [])
      | Inr arg \<Rightarrow>
          let filePath = arg ''path''
          in case safePath base filePath of
               Inl e \<Rightarrow> (Inr (caught e [(''path'', filePath)]), [])
             | Inr safe \<Rightarrow>
                 (case on_readJson fs safe of
                    Inl e \<Rightarrow> (Inr (caught e [(''path'', filePath)]), [ReadJson safe])
                  | Inr data \<Rightarrow>
                      (Inr (JObj [(''success'', JBool True), (''path'', filePath),
                                  (''data'', data)]),
                       [ReadJson safe])))"

definition fs_json_write :: "fs_oracle \<Rightarrow> string \<Rightarrow> jsval \<Rightarrow> fs_result" where
  "fs_json_write fs base input =
     (case destructure input of
        Inl e \<Rightarrow> (Inl e, [])
      | Inr arg \<Rightarrow>
          let filePath = arg ''path'';
              spaces = with_default (arg ''spaces'') (JNum 2)
          in case safePath base filePath of
               Inl e \<Rightarrow> (Inr (caught e [(''path'', filePath)]), [])
             | Inr safe \<Rightarrow>
                 (case on_ensureFile fs safe of
                    Some e \<Rightarrow> (Inr (caught e [(''path'', filePath)]), [EnsureFile safe])
                  | None \<Rightarrow>
                      (case on_writeJson fs safe (arg ''data'') spaces of
                         Some e \<Rightarrow> (Inr (caught e [(''path'', filePath)]),
                                    [EnsureFile safe, WriteJson safe])
                       | None \<Rightarrow>
                           (Inr (JObj [(''success'', JBool True), (''path'', filePath)]),
                            [EnsureFile safe, WriteJson safe]))))"


text \<open>The eight handlers by name.\<close>

datatype fs_handler =
  FsRead | FsWrite | FsList | FsExists | FsDelete | FsCopy | FsJsonRead | FsJsonWrite

fun fs_call :: "fs_handler \<Rightarrow> fs_oracle \<Rightarrow> string \<Rightarrow> jsval \<Rightarrow> fs_result" where
  "fs_call FsRead = fs_read"
| "fs_call FsWrite = fs_write"
| "fs_call FsList = fs_list"
| "fs_call FsExists = fs_exists"
| "fs_call FsDelete = fs_delete"
| "fs_call FsCopy = fs_copy"
| "fs_call FsJsonRead = fs_json_read"
| "fs_call FsJsonWrite = fs_json_write"

text \<open>The paths a call names: \<^verbatim>\<open>from\<close> and \<^verbatim>\<open>to\<close> for a copy, \<^verbatim>\<open>path\<close> otherwise
  (\<^verbatim>\<open>.\<close> by default for a listing).\<close>

definition requested_paths :: "fs_handler \<Rightarrow> (string \<Rightarrow> jsval) \<Rightarrow> jsval list" where
  "requested_paths h arg =
     (case h of
        FsCopy \<Rightarrow> [arg ''from'', arg ''to'']
      | FsList \<Rightarrow> [with_default (arg ''path'') (JStr ''.'')]
      | _ \<Rightarrow> [arg ''path''])"

text \<open>
  What the check does guarantee: every handler resolves its paths with \<^verbatim>\<open>safePath\<close>
  before anything else, and when \<^verbatim>\<open>safePath\<close> throws for one of them the handler
  returns that error and has made no file-system call.
\<close>

lemma rejected_before_any_access:
  assumes "destructure input = Inr arg"
    and "p \<in> set (requested_paths h arg)"
    and "safePath base p = Inl e"
  shows "snd (fs_call h fs base input) = []"
    and "\<exists>v. fst (fs_call h fs base input) = Inr v \<and> (\<exists>e' rest. v = caught e' rest)"
  using assms
  by (cases h;
      auto simp: requested_paths_def fs_read_def fs_write_def fs_list_def fs_exists_def
        fs_delete_def fs_copy_def fs_json_read_def fs_json_write_def Let_def
        split: sum.splits)+

lemma not_prefixed_is_denied:
  "\<not> prefix base (resolve base p) \<Longrightarrow> safePath base (JStr p) = Inl access_denied"
  by (simp add: safePath_def Let_def)

lemma parent_escape_is_denied:
  "safePath ''/srv/asx'' (JStr ''../../etc/passwd'') = Inl access_denied"
  by (simp add: safePath_def resolve_def normalize_step_def join_absolute_def Let_def)

text \<open>
  Claim C1 (the code departs from it for a sibling of the root whose name continues the
  root's name). With the root \<^verbatim>\<open>/srv/asx\<close>, the input \<^verbatim>\<open>../asx-evil/secret.txt\<close>
  resolves to \<^verbatim>\<open>/srv/asx-evil/secret.txt\<close>. That path is not inside the root, but as a
  string it starts with \<^verbatim>\<open>/srv/asx\<close>: \<^verbatim>\<open>safePath\<close> accepts it, and \<^verbatim>\<open>fs_read\<close> goes on
  to the disk with it.
\<close>

theorem sibling_directory_passes_safePath:
  "resolve ''/srv/asx'' ''../asx-evil/secret.txt'' = ''/srv/asx-evil/secret.txt''
   \<and> \<not> inside_root ''/srv/asx'' (resolve ''/srv/asx'' ''../asx-evil/secret.txt'')
   \<and> safePath ''/srv/asx'' (JStr ''../asx-evil/secret.txt'') = Inr ''/srv/asx-evil/secret.txt''
   \<and> take 1 (snd (fs_read fs ''/srv/asx'' (JObj [(''path'', JStr ''../asx-evil/secret.txt'')])))
       = [PathExists ''/srv/asx-evil/secret.txt'']"
proof -
  have r: "resolve ''/srv/asx'' ''../asx-evil/secret.txt'' = ''/srv/asx-evil/secret.txt''"
    by (simp add: resolve_def normalize_step_def join_absolute_def)
  have s: "safePath ''/srv/asx'' (JStr ''../asx-evil/secret.txt'') = Inr ''/srv/asx-evil/secret.txt''"
    by (simp add: safePath_def r Let_def)
  have i: "\<not> inside_root ''/srv/asx'' ''/srv/asx-evil/secret.txt''"
    by (simp add: inside_root_def)
  have t: "take 1 (snd (fs_read fs ''/srv/asx'' (JObj [(''path'', JStr ''../asx-evil/secret.txt'')])))
       = [PathExists ''/srv/asx-evil/secret.txt'']"
    by (simp add: fs_read_def destructure_def getProp_def s Let_def split: sum.splits)
  show ?thesis using r s i t by simp
qed


section \<open>The expression handler of handlers/core.js\<close>

text \<open>
  \<^verbatim>\<open>eval_expr\<close> builds a function with \<^verbatim>\<open>new Function(...names, `return ${expression}`)\<close>
  and calls it. Compiling and running JavaScript source is the work of the engine, which
  is a parameter: given the parameter names, the body text and the arguments it returns
  the function's value or the error it throws (a syntax error included). The globals
  \<^verbatim>\<open>Math\<close> and \<^verbatim>\<open>Date\<close> and the text of a non-string value in a template string come
  from the engine as well.
\<close>

record js_engine =
  run_function :: "string list \<Rightarrow> string \<Rightarrow> jsval list \<Rightarrow> js_error + jsval"
  math_global :: jsval
  date_global :: jsval
  text_of :: "jsval \<Rightarrow> string"

definition template_string :: "js_engine \<Rightarrow> jsval \<Rightarrow> string" where
  "template_string eng v = (case v of JStr s \<Rightarrow> s | _ \<Rightarrow> text_of eng v)"

text \<open>\<^verbatim>\<open>{Math, Date, ...context}\<close>: the two globals, then the context's properties.\<close>

definition safeContext :: "js_engine \<Rightarrow> jsval \<Rightarrow> (string \<times> jsval) list" where
  "safeContext eng context =
     foldl (\<lambda>obj kv. AList.update (fst kv) (snd kv) obj)
       [(''Math'', math_global eng), (''Date'', date_global eng)]
       (spread context)"

text \<open>
  The handler. Its result is paired with the list of the function bodies it handed to
  the engine, each with its parameter names. Between reading \<^verbatim>\<open>expression\<close> and the
  call of \<^verbatim>\<open>new Function\<close> the source has no statement that inspects the expression.
\<close>

definition eval_expr ::
  "js_engine \<Rightarrow> jsval \<Rightarrow> (js_error + jsval) \<times> (string list \<times> string) list" where
  "eval_expr eng input =
     (case destructure input of
        Inl e \<Rightarrow> (Inl e, [])
      | Inr arg \<Rightarrow>
          let expression = arg ''expression'';
              context = with_default (arg ''context'') (JObj []);
              ctx = safeContext eng context;
              body = ''return '' @ template_string eng expression
          in (case run_function eng (map fst ctx) body (map snd ctx) of
                Inr result \<Rightarrow>
                  Inr (JObj [(''result'', result), (''expression'', expression),
                             (''success'', JBool True)])
              | Inl (Error msg) \<Rightarrow>
                  Inr (JObj [(''error'', JStr msg), (''expression'', expression),
                             (''success'', JBool False)]),
              [(map fst ctx, body)]))"

text \<open>
  Claim C3 (the code departs from it). Whatever the text \<open>e\<close> of the expression is, in
  the restricted grammar or not, the handler passes \<^verbatim>\<open>return e\<close> to the engine and
  answers with what the engine returns: \<^verbatim>\<open>success: true\<close> and the value when the
  engine evaluates it. There is no rejection of its own, and identifiers other than the
  parameter names are resolved by the engine in the global scope.
\<close>

theorem eval_expr_runs_every_expression:
  "eval_expr eng (JObj [(''expression'', JStr e)])
     = ((case run_function eng [''Math'', ''Date''] (''return '' @ e)
                [math_global eng, date_global eng] of
           Inr result \<Rightarrow>
             Inr (JObj [(''result'', result), (''expression'', JStr e), (''success'', JBool True)])
         | Inl (Error msg) \<Rightarrow>
             Inr (JObj [(''error'', JStr msg), (''expression'', JStr e),
                        (''success'', JBool False)])),
        [([''Math'', ''Date''], ''return '' @ e)])"
  by (simp add: eval_expr_def destructure_def with_default_def getProp_def safeContext_def
      spread_def template_string_def Let_def)

text \<open>
  An engine that knows the Node.js global \<^verbatim>\<open>process\<close>: for the expression
  \<^verbatim>\<open>process.version\<close>, which names an identifier outside \<^verbatim>\<open>Math\<close>, \<^verbatim>\<open>Date\<close> and the
  context, the handler reports success with the value.
\<close>

definition node_like_engine :: js_engine where
  "node_like_engine =
     \<lparr>run_function = (\<lambda>names body args.
         if body = ''return process.version'' \<and> ''process'' \<notin> set names
         then Inr (JStr ''v20.11.0'')
         else Inl (Error ''not evaluated in this example'')),
      math_global = JObj [], date_global = JObj [], text_of = (\<lambda>v. ''undefined'')\<rparr>"

lemma eval_expr_process_version:
  "fst (eval_expr node_like_engine (JObj [(''expression'', JStr ''process.version'')]))
     = Inr (JObj [(''result'', JStr ''v20.11.0''), (''expression'', JStr ''process.version''),
                  (''success'', JBool True)])"
  by (simp add: eval_expr_def destructure_def with_default_def getProp_def safeContext_def
      spread_def template_string_def node_like_engine_def Let_def)


section \<open>The SCXQ2 codec (handlers/scxq2.js)\<close>

subsection \<open>Strings and the regular expressions used\<close>

text \<open>
  The codec's symbols lie outside ASCII (U+27C1 to U+27C5), so its strings are modelled
  as JavaScript has them: lists of UTF-16 code units, here natural numbers.
\<close>

type_synonym ustring = "nat list"

definition ascii :: "string \<Rightarrow> ustring" where
  "ascii s = map of_char s"

text \<open>\<^verbatim>\<open>\w\<close>: letters, digits and the underscore.\<close>

definition isWordChar :: "nat \<Rightarrow> bool" where
  "isWordChar c = ((48 \<le> c \<and> c \<le> 57) \<or> (65 \<le> c \<and> c \<le> 90) \<or> (97 \<le> c \<and> c \<le> 122) \<or> c = 95)"

text \<open>\<^verbatim>\<open>\s\<close>: the white space and line terminator code units.\<close>

definition isSpace :: "nat \<Rightarrow> bool" where
  "isSpace c = (c \<in> {9, 10, 11, 12, 13, 32, 160, 5760, 8232, 8233, 8239, 8287, 12288, 65279}
                \<or> (8192 \<le> c \<and> c \<le> 8202))"

text \<open>
  Case folding under the \<^verbatim>\<open>i\<close> flag (without \<^verbatim>\<open>u\<close>): a code unit is compared by its
  upper-case form. A code unit from 128 on never folds to an ASCII letter, so for the
  ASCII words matched here only the folding of \<^verbatim>\<open>a\<close> to \<^verbatim>\<open>z\<close> matters.
\<close>

definition canonicalize :: "nat \<Rightarrow> nat" where
  "canonicalize c = (if 97 \<le> c \<and> c \<le> 122 then c - 32 else c)"

text \<open>
  Does \<^verbatim>\<open>/\bw\b/i\<close> match at the head of \<open>rest\<close>? \<open>prev\<close> tells whether the code unit
  before the position is a word character (false at the start of the string). \<^verbatim>\<open>\b\<close>
  holds where exactly one of the two neighbours is a word character.
\<close>

definition word_at :: "ustring \<Rightarrow> bool \<Rightarrow> ustring \<Rightarrow> bool" where
  "word_at w prev rest =
     (rest \<noteq> [] \<and> w \<noteq> [] \<and> length w \<le> length rest
      \<and> prev \<noteq> isWordChar (hd rest)
      \<and> map canonicalize (take (length w) rest) = map canonicalize w
      \<and> isWordChar (last (take (length w) rest))
          \<noteq> (case drop (length w) rest of [] \<Rightarrow> False | c # cs \<Rightarrow> isWordChar c))"

text \<open>
  \<^verbatim>\<open>s.replace(/\bw\b/gi, symbol)\<close>: scan from the left, replace each match and go on
  behind it. \<open>skip\<close> counts the code units of the current match still to be passed.
\<close>

fun replace_word :: "ustring \<Rightarrow> ustring \<Rightarrow> nat \<Rightarrow> bool \<Rightarrow> ustring \<Rightarrow> ustring" where
  "replace_word w symbol skip prev [] = []"
| "replace_word w symbol (Suc k) prev (c # cs) = replace_word w symbol k (isWordChar c) cs"
| "replace_word w symbol 0 prev (c # cs) =
     (if word_at w prev (c # cs)
      then symbol @ replace_word w symbol (length w - 1) (isWordChar c) cs
      else c # replace_word w symbol 0 (isWordChar c) cs)"

text \<open>\<^verbatim>\<open>s.replace(/pat/g, rep)\<close> for a pattern without special characters.\<close>

fun replace_literal :: "ustring \<Rightarrow> ustring \<Rightarrow> nat \<Rightarrow> ustring \<Rightarrow> ustring" where
  "replace_literal pat rep skip [] = []"
| "replace_literal pat rep (Suc k) (c # cs) = replace_literal pat rep k cs"
| "replace_literal pat rep 0 (c # cs) =
     (if pat \<noteq> [] \<and> take (length pat) (c # cs) = pat
      then rep @ replace_literal pat rep (length pat - 1) cs
      else c # replace_literal pat rep 0 cs)"

text \<open>
  \<^verbatim>\<open>s.replace(/"(\w+)":/g, '\<triangle>$1\<triangle>')\<close>, with \<open>\<triangle>\<close> for U+27C1: a quote, a longest
  run of word characters (not empty), a quote and a colon. The run is delimited by the
  quote, so the greedy match is the only one.
\<close>

definition tri :: nat where
  "tri = 10177"

fun compress_names :: "nat \<Rightarrow> ustring \<Rightarrow> ustring" where
  "compress_names skip [] = []"
| "compress_names (Suc k) (c # cs) = compress_names k cs"
| "compress_names 0 (c # cs) =
     (let name = takeWhile isWordChar cs
      in if c = 34 \<and> name \<noteq> [] \<and> take 2 (dropWhile isWordChar cs) = [34, 58]
         then [tri] @ name @ [tri] @ compress_names (length name + 2) cs
         else c # compress_names 0 cs)"

text \<open>\<^verbatim>\<open>s.replace(/\<triangle>(\w+)\<triangle>/g, '"$1":')\<close>.\<close>

fun expand_names :: "nat \<Rightarrow> ustring \<Rightarrow> ustring" where
  "expand_names skip [] = []"
| "expand_names (Suc k) (c # cs) = expand_names k cs"
| "expand_names 0 (c # cs) =
     (let name = takeWhile isWordChar cs
      in if c = tri \<and> name \<noteq> [] \<and> take 1 (dropWhile isWordChar cs) = [tri]
         then [34] @ name @ [34, 58] @ expand_names (length name + 1) cs
         else c # expand_names 0 cs)"

subsection \<open>The compression helpers\<close>

text \<open>\<^verbatim>\<open>compressText\<close>: the ten common words, each replaced in the table's order.\<close>

definition commonWords :: "(string \<times> string) list" where
  "commonWords =
     [(''the'', ''t''), (''and'', ''a''), (''for'', ''f''), (''with'', ''w''), (''this'', ''h''),
      (''that'', ''T''), (''from'', ''F''), (''have'', ''H''), (''will'', ''W''), (''your'', ''Y'')]"

definition compressText :: "ustring \<Rightarrow> ustring" where
  "compressText text =
     foldl (\<lambda>compressed ws.
              replace_word (ascii (fst ws)) (tri # ascii (snd ws)) 0 False compressed)
       text commonWords"

text \<open>\<^verbatim>\<open>decompressText\<close>: each symbol replaced by its lower-case word.\<close>

definition decompressText :: "ustring \<Rightarrow> ustring" where
  "decompressText compressed =
     foldl (\<lambda>expanded ws.
              replace_literal (tri # ascii (snd ws)) (ascii (fst ws)) 0 expanded)
       compressed commonWords"

text \<open>\<^verbatim>\<open>compressJSON\<close> and \<^verbatim>\<open>decompressJSON\<close> on the text of the JSON.\<close>

definition compress_json_text :: "ustring \<Rightarrow> ustring" where
  "compress_json_text str =
     filter (\<lambda>c. \<not> isSpace c)
       (replace_literal (ascii ''false'') [10181] 0
         (replace_literal (ascii ''true'') [10180] 0
           (replace_literal (ascii ''null'') [10179] 0
             (replace_literal [44, 34] [10178, 34] 0
               (compress_names 0 str)))))"

definition expand_json_text :: "ustring \<Rightarrow> ustring" where
  "expand_json_text compressed =
     replace_literal [10181] (ascii ''false'') 0
       (replace_literal [10180] (ascii ''true'') 0
         (replace_literal [10179] (ascii ''null'') 0
           (replace_literal [10178] [44, 34] 0
             (expand_names 0 compressed))))"

subsection \<open>The handlers\<close>

text \<open>
  The data of a request is a string or some other value; \<^verbatim>\<open>JSON.stringify\<close> (which
  gives \<^verbatim>\<open>undefined\<close> for a value without JSON form), \<^verbatim>\<open>JSON.parse\<close> and
  \<^verbatim>\<open>toFixed(2)\<close> belong to the host.
\<close>

datatype 'j payload = Text ustring | Structured 'j

record 'j codec_host =
  json_stringify :: "'j payload \<Rightarrow> ustring option"
  json_parse :: "ustring \<Rightarrow> js_error + 'j payload"
  to_fixed2 :: "rat \<Rightarrow> string"

definition compressJSON :: "'j codec_host \<Rightarrow> 'j payload \<Rightarrow> js_error + ustring" where
  "compressJSON host data =
     (case json_stringify host data of
        None \<Rightarrow> Inl (Error ''Cannot read properties of undefined (reading 'replace')'')
      | Some str \<Rightarrow> Inr (compress_json_text str))"

definition decompressJSON :: "'j codec_host \<Rightarrow> ustring \<Rightarrow> js_error + 'j payload" where
  "decompressJSON host compressed = json_parse host (expand_json_text compressed)"

text \<open>The choice of the helper by \<^verbatim>\<open>mode\<close>; a value that is not a string has no
  \<^verbatim>\<open>replace\<close> method.\<close>

definition encode_payload :: "'j codec_host \<Rightarrow> 'j payload \<Rightarrow> string \<Rightarrow> js_error + ustring" where
  "encode_payload host data mode =
     (if mode = ''json'' then compressJSON host data
      else if mode = ''text'' then
        (case data of
           Text t \<Rightarrow> Inr (compressText t)
         | Structured v \<Rightarrow> Inl (Error ''compressed.replace is not a function''))
      else
        (case data of
           Text t \<Rightarrow> Inr (compressText t)
         | Structured v \<Rightarrow> compressJSON host data))"

datatype encode_result =
    EncodeOk ustring nat nat string string
  | EncodeError string string

definition scxq2_encode :: "'j codec_host \<Rightarrow> 'j payload \<Rightarrow> string \<Rightarrow> encode_result" where
  "scxq2_encode host data mode =
     (case encode_payload host data mode of
        Inl (Error msg) \<Rightarrow> EncodeError msg mode
      | Inr compressed \<Rightarrow>
          (case json_stringify host data of
             None \<Rightarrow> EncodeError ''Cannot read properties of undefined (reading 'length')'' mode
           | Some original \<Rightarrow>
               EncodeOk compressed (length original) (length compressed)
                 (to_fixed2 host ((1 - of_nat (length compressed) / of_nat (length original)) * 100)
                  @ ''%'')
                 mode))"

datatype 'j decode_result = DecodeOk "'j payload" string | DecodeError string string

definition decode_payload :: "'j codec_host \<Rightarrow> 'j payload \<Rightarrow> string \<Rightarrow> js_error + 'j payload" where
  "decode_payload host compressed mode =
     (case compressed of
        Structured v \<Rightarrow> Inl (Error ''compressed.replace is not a function'')
      | Text c \<Rightarrow>
          if mode = ''json'' then decompressJSON host c
          else if mode = ''text'' then Inr (Text (decompressText c))
          else if c \<noteq> [] \<and> hd c = tri then decompressJSON host c
          else Inr (Text (decompressText c)))"

definition scxq2_decode :: "'j codec_host \<Rightarrow> 'j payload \<Rightarrow> string \<Rightarrow> 'j decode_result" where
  "scxq2_decode host compressed mode =
     (case decode_payload host compressed mode of
        Inl (Error msg) \<Rightarrow> DecodeError msg mode
      | Inr data \<Rightarrow> DecodeOk data mode)"

text \<open>The word \<^verbatim>\<open>The\<close> is compressed to the symbol of \<^verbatim>\<open>the\<close>.\<close>

lemma compressText_The:
  "compressText (ascii ''The'') = [tri, 116]"
  by (simp add: compressText_def commonWords_def ascii_def word_at_def isWordChar_def
      canonicalize_def tri_def)

lemma decompressText_symbol:
  "decompressText [tri, 116] = ascii ''the''"
  by (simp add: decompressText_def commonWords_def ascii_def tri_def)

text \<open>
  Claim C2 (the code departs from it). In text mode the data \<^verbatim>\<open>The\<close> is encoded
  successfully, and decoding the result gives \<^verbatim>\<open>the\<close>: the words are matched without
  regard to case, and the symbol stands for the lower-case word only.
\<close>

theorem text_round_trip_loses_case:
  "encode_payload host (Text (ascii ''The'')) ''text'' = Inr [tri, 116]
   \<and> scxq2_decode host (Text [tri, 116]) ''text'' = DecodeOk (Text (ascii ''the'')) ''text''
   \<and> ascii ''the'' \<noteq> ascii ''The''"
  by (simp add: encode_payload_def scxq2_decode_def decode_payload_def compressText_The
      decompressText_symbol) (simp add: ascii_def)

text \<open>
  The JSON helpers are not inverse either. The text \<^verbatim>\<open>["p","q"]\<close> (code units 91 34 112
  34 44 34 113 34 93) keeps its quote when the separator is replaced, and gets a second
  one back on expansion: the result is \<^verbatim>\<open>["p",""q"]\<close>, which is not JSON.
\<close>

lemma json_separator_not_restored:
  "compress_json_text [91, 34, 112, 34, 44, 34, 113, 34, 93]
     = [91, 34, 112, 34, 10178, 34, 113, 34, 93]"
  "expand_json_text [91, 34, 112, 34, 10178, 34, 113, 34, 93]
     = [91, 34, 112, 34, 44, 34, 34, 113, 34, 93]"
  by (simp_all add: compress_json_text_def expand_json_text_def isWordChar_def isSpace_def
      ascii_def tri_def)


end
